theory Spec2Isabelle
  imports Main "HOL-Library.Sublist" "HOL-Library.AList"
begin

section \<open>Values, exceptions and the HTTP collaborator\<close>

text \<open>
  The service of \<^verbatim>\<open>src/components/tweet_replies_fetch_service.py\<close> copies values of a
  parsed JSON document into dictionaries of its own. A parsed document is a Python value
  built from \<^verbatim>\<open>None\<close>, booleans, integers, strings, lists and dictionaries with string
  keys. A dictionary is an association list, looked up with \<^const>\<open>map_of\<close>; the order
  of its items is the insertion order of the Python dictionary. Numbers are Python's
  unbounded integers; the service never computes with a number, it only copies it.
\<close>

datatype json =
    JNull
  | JBool bool
  | JInt int
  | JStr string
  | JArr "json list"
  | JObj "(string \<times> json) list"

text \<open>
  The exceptions the code can meet. The first group are the subclasses of
  \<^verbatim>\<open>requests.RequestException\<close>, the only class the handler of line 67 catches.
  \<^verbatim>\<open>Response.json()\<close> of requests 2.27 and later raises
  \<^verbatim>\<open>requests.exceptions.JSONDecodeError\<close>, which derives from
  \<^verbatim>\<open>InvalidJSONError\<close> and so from \<^verbatim>\<open>RequestException\<close>; older releases let the
  decoder's own \<^verbatim>\<open>ValueError\<close> through.
\<close>

datatype py_exception =
    RequestsConnectionError
  | RequestsTimeout
  | RequestsMissingSchema
  | RequestsJSONDecodeError
  | ValueErrorJSONDecode
  | KeyError string
  | TypeError
  | AttributeError
  | OSError

fun is_RequestException :: "py_exception \<Rightarrow> bool" where
  "is_RequestException RequestsConnectionError = True"
| "is_RequestException RequestsTimeout = True"
| "is_RequestException RequestsMissingSchema = True"
| "is_RequestException RequestsJSONDecodeError = True"
| "is_RequestException ValueErrorJSONDecode = False"
| "is_RequestException (KeyError k) = False"
| "is_RequestException TypeError = False"
| "is_RequestException AttributeError = False"
| "is_RequestException OSError = False"

text \<open>
  The request of lines 35 to 41 and the response object it yields. What
  \<^verbatim>\<open>response.json()\<close> does is a field of the response: the parsed document, or the
  exception the decoder raises on a body that is not JSON.
\<close>

record request =
  req_method :: string
  req_url :: "string option"
  req_headers :: "(string \<times> string option) list"
  req_params :: "(string \<times> string) list"
  req_timeout :: nat

record response =
  status_code :: int
  text_body :: string
  json_result :: "py_exception + json"

type_synonym transport = "request \<Rightarrow> py_exception + response"

section \<open>Python's operations on parsed values\<close>

text \<open>\<^verbatim>\<open>key in obj\<close> for a string key: membership in a dictionary's keys, in a list's
  elements, substring of a string; a \<^verbatim>\<open>TypeError\<close> on anything else.\<close>

fun py_in :: "string \<Rightarrow> json \<Rightarrow> py_exception + bool" where
  "py_in k (JObj kvs) = Inr (map_of kvs k \<noteq> None)"
| "py_in k (JArr xs) = Inr (JStr k \<in> set xs)"
| "py_in k (JStr s) = Inr (sublist k s)"
| "py_in k JNull = Inl TypeError"
| "py_in k (JBool b) = Inl TypeError"
| "py_in k (JInt n) = Inl TypeError"

text \<open>\<^verbatim>\<open>obj[key]\<close> for a string key: the value of a dictionary, \<^verbatim>\<open>KeyError\<close> when the
  key is absent, \<^verbatim>\<open>TypeError\<close> on a value that is not a dictionary.\<close>

fun py_getitem :: "json \<Rightarrow> string \<Rightarrow> py_exception + json" where
  "py_getitem (JObj kvs) k = (case map_of kvs k of None \<Rightarrow> Inl (KeyError k) | Some v \<Rightarrow> Inr v)"
| "py_getitem JNull k = Inl TypeError"
| "py_getitem (JBool b) k = Inl TypeError"
| "py_getitem (JInt n) k = Inl TypeError"
| "py_getitem (JStr s) k = Inl TypeError"
| "py_getitem (JArr xs) k = Inl TypeError"

text \<open>\<^verbatim>\<open>obj.get(key, default)\<close>: only a dictionary has the method.\<close>

fun py_get :: "json \<Rightarrow> string \<Rightarrow> json \<Rightarrow> py_exception + json" where
  "py_get (JObj kvs) k d = Inr (case map_of kvs k of None \<Rightarrow> d | Some v \<Rightarrow> v)"
| "py_get JNull k d = Inl AttributeError"
| "py_get (JBool b) k d = Inl AttributeError"
| "py_get (JInt n) k d = Inl AttributeError"
| "py_get (JStr s) k d = Inl AttributeError"
| "py_get (JArr xs) k d = Inl AttributeError"

section \<open>The service\<close>

text \<open>The dictionary of lines 49 to 60 and its nested \<^verbatim>\<open>metrics\<close> dictionary. A value
  that \<^verbatim>\<open>get\<close> did not find is \<^verbatim>\<open>None\<close>, here \<^const>\<open>JNull\<close>. The field
  \<open>reply_text\<close> is the key \<^verbatim>\<open>text\<close>, \<open>metric_replies\<close> the key \<^verbatim>\<open>replies\<close> of
  \<^verbatim>\<open>metrics\<close>.\<close>

record metrics =
  likes :: json
  retweets :: json
  metric_replies :: json

record reply_info =
  reply_id :: json
  author_id :: json
  author_username :: json
  reply_text :: json
  created_at :: json
  metrics :: metrics

text \<open>The instance: the two environment variables read by the constructor (absent when
  unset) and the buffer \<^verbatim>\<open>self.replies\<close>.\<close>

record service =
  api_url :: "string option"
  api_key :: "string option"
  replies :: "reply_info list"

text \<open>Lines 16 to 19.\<close>

definition init_service :: "string option \<Rightarrow> string option \<Rightarrow> service" where
  "init_service url key = \<lparr> api_url = url, api_key = key, replies = [] \<rparr>"

text \<open>Lines 35 to 41: the request is built from the instance and the tweet id alone.\<close>

definition build_request :: "service \<Rightarrow> string \<Rightarrow> request" where
  "build_request s tweet_id =
     \<lparr> req_method = ''GET'',
       req_url = api_url s,
       req_headers = [(''X-API-Key'', api_key s)],
       req_params = [(''tweetId'', tweet_id)],
       req_timeout = 10 \<rparr>"

text \<open>Sequencing of expressions that may raise: the first exception ends the evaluation.\<close>

definition py_bind :: "py_exception + 'a \<Rightarrow> ('a \<Rightarrow> py_exception + 'b) \<Rightarrow> py_exception + 'b" where
  "py_bind r f = (case r of Inl e \<Rightarrow> Inl e | Inr v \<Rightarrow> f v)"

text \<open>Lines 49 to 60: the dictionary display, its items evaluated in the order written.\<close>

definition map_reply :: "json \<Rightarrow> py_exception + reply_info" where
  "map_reply reply =
     py_bind (py_getitem reply ''id'') (\<lambda>rid.
     py_bind (py_get reply ''author_id'' JNull) (\<lambda>aid.
     py_bind (py_get reply ''author'' (JObj [])) (\<lambda>author.
     py_bind (py_get author ''username'' JNull) (\<lambda>uname.
     py_bind (py_getitem reply ''text'') (\<lambda>txt.
     py_bind (py_get reply ''created_at'' JNull) (\<lambda>cat.
     py_bind (py_get reply ''likes_count'' (JInt 0)) (\<lambda>lc.
     py_bind (py_get reply ''retweets_count'' (JInt 0)) (\<lambda>rc.
     py_bind (py_get reply ''replies_count'' (JInt 0)) (\<lambda>pc.
       Inr \<lparr> reply_id = rid, author_id = aid, author_username = uname, reply_text = txt,
             created_at = cat,
             metrics = \<lparr> likes = lc, retweets = rc, metric_replies = pc \<rparr> \<rparr>)))))))))"

text \<open>Lines 48 to 61: the loop appends to the buffer; an exception leaves the loop with
  the buffer as it is at that moment.\<close>

fun append_replies :: "reply_info list \<Rightarrow> json list \<Rightarrow> py_exception option \<times> reply_info list" where
  "append_replies buf [] = (None, buf)"
| "append_replies buf (reply # rest) =
     (case map_reply reply of
        Inl e \<Rightarrow> (Some e, buf)
      | Inr info \<Rightarrow> append_replies (buf @ [info]) rest)"

text \<open>Lines 67 to 69: the handler of the \<^verbatim>\<open>try\<close> block returns a new empty list. An
  exception of another class leaves the method.\<close>

definition on_exception :: "py_exception \<Rightarrow> service \<Rightarrow> (py_exception + reply_info list) \<times> service" where
  "on_exception e s = (if is_RequestException e then (Inr [], s) else (Inl e, s))"

text \<open>Line 47 on a value that holds the key: \<^verbatim>\<open>isinstance(replies_data["tweets"], list)\<close>.\<close>

fun isinstance_list :: "json \<Rightarrow> bool" where
  "isinstance_list (JArr xs) = True"
| "isinstance_list v = False"

fun list_items :: "json \<Rightarrow> json list" where
  "list_items (JArr xs) = xs"
| "list_items v = []"

text \<open>Lines 21 to 71. The result is the value returned or the exception raised, together
  with the instance as the call leaves it. Line 31 empties the buffer before anything
  else; line 71 returns the buffer.\<close>

definition get_tweet_replies ::
  "service \<Rightarrow> string \<Rightarrow> int \<Rightarrow> transport \<Rightarrow> (py_exception + reply_info list) \<times> service" where
  "get_tweet_replies s tweet_id max_replies http =
     (let s1 = s\<lparr>replies := []\<rparr> in
      case http (build_request s1 tweet_id) of
        Inl e \<Rightarrow> on_exception e s1
      | Inr resp \<Rightarrow>
         (case json_result resp of
            Inl e \<Rightarrow> on_exception e s1
          | Inr replies_data \<Rightarrow>
             (case py_in ''tweets'' replies_data of
                Inl e \<Rightarrow> on_exception e s1
              | Inr present \<Rightarrow>
                 if \<not> present then (Inr (replies s1), s1)
                 else
                  (case py_getitem replies_data ''tweets'' of
                     Inl e \<Rightarrow> on_exception e s1
                   | Inr tweets \<Rightarrow>
                      if \<not> isinstance_list tweets then (Inr (replies s1), s1)
                      else
                       (case append_replies (replies s1) (list_items tweets) of
                          (Some e, buf) \<Rightarrow> on_exception e (s1\<lparr>replies := buf\<rparr>)
                        | (None, buf) \<Rightarrow> (Inr buf, s1\<lparr>replies := buf\<rparr>))))))"

subsection \<open>The fetch with metadata\<close>

text \<open>\<^verbatim>\<open>datetime.now()\<close> is a reading of the clock, handed to the model by the caller.\<close>

record datetime =
  dt_year :: nat
  dt_month :: nat
  dt_day :: nat
  dt_hour :: nat
  dt_minute :: nat
  dt_second :: nat
  dt_microsecond :: nat

definition digit :: "nat \<Rightarrow> char" where
  "digit d = ''0123456789'' ! (d mod 10)"

definition digits2 :: "nat \<Rightarrow> string" where
  "digits2 n = [digit (n div 10), digit n]"

definition digits4 :: "nat \<Rightarrow> string" where
  "digits4 n = [digit (n div 1000), digit (n div 100), digit (n div 10), digit n]"

definition digits6 :: "nat \<Rightarrow> string" where
  "digits6 n = [digit (n div 100000), digit (n div 10000), digit (n div 1000),
                digit (n div 100), digit (n div 10), digit n]"

text \<open>\<^verbatim>\<open>isoformat()\<close> of a naive datetime: the microseconds are printed when not zero.\<close>

definition isoformat :: "datetime \<Rightarrow> string" where
  "isoformat t =
     digits4 (dt_year t) @ ''-'' @ digits2 (dt_month t) @ ''-'' @ digits2 (dt_day t) @ ''T'' @
     digits2 (dt_hour t) @ '':'' @ digits2 (dt_minute t) @ '':'' @ digits2 (dt_second t) @
     (if dt_microsecond t = 0 then [] else ''.'' @ digits6 (dt_microsecond t))"

text \<open>The dictionary of lines 78 to 83.\<close>

record fetch_result =
  tweet_id :: string
  total_replies_fetched :: int
  fetch_timestamp :: string
  fetched_replies :: "reply_info list"

text \<open>Lines 73 to 83. An exception of \<^verbatim>\<open>get_tweet_replies\<close> leaves this method too.\<close>

definition get_replies_with_metadata ::
  "service \<Rightarrow> string \<Rightarrow> int \<Rightarrow> transport \<Rightarrow> datetime \<Rightarrow> (py_exception + fetch_result) \<times> service" where
  "get_replies_with_metadata s tid max_replies http now =
     (case get_tweet_replies s tid max_replies http of
        (Inl e, s') \<Rightarrow> (Inl e, s')
      | (Inr rs, s') \<Rightarrow>
          (Inr \<lparr> tweet_id = tid,
                 total_replies_fetched = int (length rs),
                 fetch_timestamp = isoformat now,
                 fetched_replies = rs \<rparr>, s'))"

section \<open>Shapes of the upstream document\<close>

text \<open>The upstream contract describes a reply as an object with the fields \<^verbatim>\<open>id\<close> and
  \<^verbatim>\<open>text\<close>, the others optional, \<^verbatim>\<open>author\<close> an object when it is there.\<close>

fun has_field :: "string \<Rightarrow> json \<Rightarrow> bool" where
  "has_field k (JObj kvs) = (map_of kvs k \<noteq> None)"
| "has_field k v = False"

fun is_object :: "json \<Rightarrow> bool" where
  "is_object (JObj kvs) = True"
| "is_object v = False"

definition well_formed :: "json \<Rightarrow> bool" where
  "well_formed reply \<longleftrightarrow>
     has_field ''id'' reply \<and> has_field ''text'' reply \<and>
     (case py_get reply ''author'' (JObj []) of Inl e \<Rightarrow> False | Inr author \<Rightarrow> is_object author)"

text \<open>A test double for the HTTP layer: every request is answered with the same outcome of
  \<^verbatim>\<open>response.json()\<close>, status 200.\<close>

definition canned :: "string \<Rightarrow> py_exception + json \<Rightarrow> transport" where
  "canned body parsed = (\<lambda>req. Inr \<lparr> status_code = 200, text_body = body, json_result = parsed \<rparr>)"

definition plain_reply :: "string \<Rightarrow> string \<Rightarrow> json" where
  "plain_reply i t = JObj [(''id'', JStr i), (''text'', JStr t)]"

section \<open>Writing the result to a file\<close>





subsection \<open>The encoder\<close>

text \<open>\<^verbatim>\<open>json.dump(obj, f, indent=4)\<close> of Python's standard library, for the values of type
  \<^typ>\<open>json\<close>. A character of a string stands for the code point of the same number.\<close>










subsection \<open>The decoder\<close>

















subsection \<open>The file system and the method\<close>



subsection \<open>Notions used in the proofs\<close>





section \<open>Facts about the mapping of one reply and about the loop\<close>

lemma py_getitem_error: "py_getitem v k = Inl e \<Longrightarrow> \<not> is_RequestException e"
  by (cases v) (auto split: option.splits)

lemma py_get_error: "py_get v k d = Inl e \<Longrightarrow> \<not> is_RequestException e"
  by (cases v) auto

lemma py_bind_Inl:
  "py_bind r f = Inl e \<longleftrightarrow> r = Inl e \<or> (\<exists>v. r = Inr v \<and> f v = Inl e)"
  by (cases r) (auto simp: py_bind_def)

lemma py_bind_Inr:
  "py_bind r f = Inr y \<longleftrightarrow> (\<exists>v. r = Inr v \<and> f v = Inr y)"
  by (cases r) (auto simp: py_bind_def)

lemma map_reply_error: "map_reply reply = Inl e \<Longrightarrow> \<not> is_RequestException e"
  unfolding map_reply_def py_bind_Inl
  by (auto dest: py_getitem_error py_get_error)

lemma map_reply_fields:
  assumes "map_reply reply = Inr info"
  shows "py_getitem reply ''id'' = Inr (reply_id info)"
    and "py_getitem reply ''text'' = Inr (reply_text info)"
    and "py_get reply ''likes_count'' (JInt 0) = Inr (likes (metrics info))"
    and "py_get reply ''retweets_count'' (JInt 0) = Inr (retweets (metrics info))"
    and "py_get reply ''replies_count'' (JInt 0) = Inr (metric_replies (metrics info))"
  using assms unfolding map_reply_def py_bind_Inr by auto

lemma py_get_absent: "\<not> has_field k v \<Longrightarrow> py_get v k d = Inr x \<Longrightarrow> x = d"
  by (cases v) auto

lemma map_reply_total_iff: "(\<exists>info. map_reply reply = Inr info) \<longleftrightarrow> well_formed reply"
proof (cases reply)
  case (JObj kvs)
  then show ?thesis
    unfolding map_reply_def py_bind_Inr well_formed_def
    by (cases "map_of kvs ''author''"; cases "the (map_of kvs ''author'')")
       (auto split: option.splits)
qed (auto simp: map_reply_def py_bind_def well_formed_def)

lemma append_replies_all_ok:
  "list_all well_formed xs \<Longrightarrow>
   \<exists>rs. append_replies buf xs = (None, buf @ rs) \<and> map map_reply xs = map Inr rs"
proof (induction xs arbitrary: buf)
  case Nil
  then show ?case by simp
next
  case (Cons x xs)
  from Cons.prems obtain info where x: "map_reply x = Inr info"
    using map_reply_total_iff [of x] by auto
  from Cons.prems have "list_all well_formed xs" by simp
  from Cons.IH [OF this, of "buf @ [info]"] obtain rs where
    rs: "append_replies (buf @ [info]) xs = (None, (buf @ [info]) @ rs)"
        "map map_reply xs = map Inr rs" by blast
  have "append_replies buf (x # xs) = (None, buf @ (info # rs))"
    using x rs(1) by simp
  moreover have "map map_reply (x # xs) = map Inr (info # rs)"
    using x rs(2) by simp
  ultimately show ?case by blast
qed

lemma append_replies_first_failure:
  "list_all well_formed pre \<Longrightarrow> map_reply x = Inl e \<Longrightarrow>
   \<exists>rs. append_replies buf (pre @ x # post) = (Some e, buf @ rs) \<and>
        map map_reply pre = map Inr rs"
proof (induction pre arbitrary: buf)
  case Nil
  then show ?case by simp
next
  case (Cons p pre)
  from Cons.prems obtain info where p: "map_reply p = Inr info"
    using map_reply_total_iff [of p] by auto
  from Cons.prems have "list_all well_formed pre" by simp
  from Cons.IH [OF this Cons.prems(2), of "buf @ [info]"] obtain rs where
    rs: "append_replies (buf @ [info]) (pre @ x # post) = (Some e, (buf @ [info]) @ rs)"
        "map map_reply pre = map Inr rs" by blast
  have "append_replies buf ((p # pre) @ x # post) = (Some e, buf @ (info # rs))"
    using p rs(1) by simp
  moreover have "map map_reply (p # pre) = map Inr (info # rs)"
    using p rs(2) by simp
  ultimately show ?case by blast
qed

lemma append_replies_some_failure:
  "x \<in> set xs \<Longrightarrow> \<not> well_formed x \<Longrightarrow>
   \<exists>e buf'. append_replies buf xs = (Some e, buf') \<and> \<not> is_RequestException e"
proof (induction xs arbitrary: buf)
  case Nil
  then show ?case by simp
next
  case (Cons y ys)
  show ?case
  proof (cases "map_reply y")
    case (Inl e)
    then show ?thesis using map_reply_error [OF Inl] by simp
  next
    case (Inr info)
    then have "well_formed y" using map_reply_total_iff [of y] by blast
    with Cons.prems have "x \<in> set ys" by auto
    from Cons.IH [OF this Cons.prems(2), of "buf @ [info]"] Inr show ?thesis by simp
  qed
qed

lemma get_tweet_replies_tweets_array:
  assumes "http (build_request s tid) = Inr resp"
    and "json_result resp = Inr (JObj body)"
    and "map_of body ''tweets'' = Some (JArr tweets)"
  shows "get_tweet_replies s tid m http =
           (case append_replies [] tweets of
              (Some e, buf) \<Rightarrow> on_exception e (s\<lparr>replies := buf\<rparr>)
            | (None, buf) \<Rightarrow> (Inr buf, s\<lparr>replies := buf\<rparr>))"
  using assms
  by (simp add: get_tweet_replies_def build_request_def Let_def split: prod.splits option.splits)

lemma build_request_buffer: "build_request (s\<lparr>replies := b\<rparr>) tid = build_request s tid"
  by (simp add: build_request_def)

lemma get_tweet_replies_buffer:
  "get_tweet_replies (s\<lparr>replies := b\<rparr>) tid m http = get_tweet_replies s tid m http"
  by (simp add: get_tweet_replies_def build_request_def Let_def)

lemma get_tweet_replies_well_formed:
  assumes "http (build_request s tid) = Inr resp"
    and "json_result resp = Inr (JObj body)"
    and "map_of body ''tweets'' = Some (JArr tweets)"
    and "list_all well_formed tweets"
  shows "\<exists>rs. get_tweet_replies s tid m http = (Inr rs, s\<lparr>replies := rs\<rparr>) \<and>
              map map_reply tweets = map Inr rs"
proof -
  from append_replies_all_ok [OF assms(4), of "[]"] obtain rs where
    rs: "append_replies [] tweets = (None, rs)" "map map_reply tweets = map Inr rs"
    by auto
  have "get_tweet_replies s tid m http = (Inr rs, s\<lparr>replies := rs\<rparr>)"
    using get_tweet_replies_tweets_array [where http = http and s = s and tid = tid and m = m, OF assms(1-3)] rs(1) by simp
  with rs(2) show ?thesis by blast
qed

lemma map_eq_nth:
  assumes "map f xs = map g ys"
  shows "length ys = length xs" and "i < length xs \<Longrightarrow> f (xs ! i) = g (ys ! i)"
proof -
  show len: "length ys = length xs"
    using arg_cong [OF assms, of length] by simp
  show "f (xs ! i) = g (ys ! i)" if "i < length xs"
    using arg_cong [OF assms, of "\<lambda>l. l ! i"] that len by simp
qed

lemma service_buffer_eq: "(s\<lparr>replies := rs\<rparr> = s) \<longleftrightarrow> replies s = rs"
  by (cases s) auto

section \<open>Network failures\<close>

text \<open>
  C2. When the request itself fails with an exception of the network layer (a connection
  error, a timeout: any \<^verbatim>\<open>RequestException\<close>), \<^verbatim>\<open>get_tweet_replies\<close> returns the
  empty list and raises nothing.
\<close>

theorem network_failure_returns_empty:
  assumes "http (build_request s tid) = Inl e"
    and "is_RequestException e"
  shows "fst (get_tweet_replies s tid max_replies http) = Inr []"
  using assms by (simp add: get_tweet_replies_def on_exception_def build_request_def Let_def)

theorem network_failure_returns_empty_witness:
  "fst (get_tweet_replies (init_service (Some ''u'') (Some ''k'')) ''123'' 100
          (\<lambda>req. Inl RequestsTimeout)) = Inr []"
  using network_failure_returns_empty
    [of "\<lambda>req. Inl RequestsTimeout" "init_service (Some ''u'') (Some ''k'')" "''123''"
        RequestsTimeout 100]
  by simp


text \<open>
  C3, as the code has it. When the body of the response is not JSON, the exception that
  \<^verbatim>\<open>response.json()\<close> raises decides the outcome: the decode error of requests 2.27 and
  later is a \<^verbatim>\<open>RequestException\<close>, the handler catches it and the call returns the empty
  list; only a decode error that is not a \<^verbatim>\<open>RequestException\<close> (the plain
  \<^verbatim>\<open>ValueError\<close> of older releases) leaves \<^verbatim>\<open>get_tweet_replies\<close>.
\<close>

theorem undecodable_body_outcome:
  assumes "http (build_request s tid) = Inr resp"
    and "json_result resp = Inl e"
  shows "fst (get_tweet_replies s tid max_replies http) =
           (if is_RequestException e then Inr [] else Inl e)"
  using assms
  by (simp add: get_tweet_replies_def on_exception_def build_request_def Let_def)

theorem undecodable_body_outcome_witness:
  "fst (get_tweet_replies (init_service (Some ''u'') (Some ''k'')) ''123'' 100
          (canned ''<html>'' (Inl ValueErrorJSONDecode))) = Inl ValueErrorJSONDecode"
  using undecodable_body_outcome
    [of "canned ''<html>'' (Inl ValueErrorJSONDecode)" "init_service (Some ''u'') (Some ''k'')"
        "''123''" "\<lparr> status_code = 200, text_body = ''<html>'',
                       json_result = Inl ValueErrorJSONDecode \<rparr>" ValueErrorJSONDecode 100]
  by (simp add: canned_def)

text \<open>The claim of C3 as the specification words it fails on a body that is not JSON, with
  the decode error of a current requests: nothing is propagated, the caller gets
  the empty list.\<close>

theorem undecodable_body_is_swallowed:
  "fst (get_tweet_replies (init_service (Some ''u'') (Some ''k'')) ''123'' 100
          (canned ''<html>'' (Inl RequestsJSONDecodeError))) = Inr []"
  by (simp add: get_tweet_replies_def on_exception_def canned_def Let_def)

section \<open>Documents with a list of replies\<close>

text \<open>
  C1, as the code has it. When the parsed body holds under \<^verbatim>\<open>tweets\<close> a list of N
  well-formed objects, each of them an object that has the fields \<^verbatim>\<open>id\<close> and
  \<^verbatim>\<open>text\<close> and whose \<^verbatim>\<open>author\<close>, when it is there, is an object too,
  \<^verbatim>\<open>get_tweet_replies\<close> returns N records; the \<^verbatim>\<open>reply_id\<close> of each is the
  \<^verbatim>\<open>id\<close> of its source object and its \<^verbatim>\<open>text\<close> is the source's \<^verbatim>\<open>text\<close>, both
  unchanged; each of the three counters is 0 when the source object lacks
  \<^verbatim>\<open>likes_count\<close>, \<^verbatim>\<open>retweets_count\<close> or \<^verbatim>\<open>replies_count\<close>.
\<close>

theorem well_formed_tweets_mapped:
  assumes "http (build_request s tid) = Inr resp"
    and "json_result resp = Inr (JObj body)"
    and "map_of body ''tweets'' = Some (JArr tweets)"
    and "list_all well_formed tweets"
  shows "\<exists>rs. fst (get_tweet_replies s tid max_replies http) = Inr rs \<and>
           length rs = length tweets \<and>
           (\<forall>i<length tweets.
              py_getitem (tweets ! i) ''id'' = Inr (reply_id (rs ! i)) \<and>
              py_getitem (tweets ! i) ''text'' = Inr (reply_text (rs ! i)) \<and>
              (\<not> has_field ''likes_count'' (tweets ! i) \<longrightarrow> likes (metrics (rs ! i)) = JInt 0) \<and>
              (\<not> has_field ''retweets_count'' (tweets ! i) \<longrightarrow>
                 retweets (metrics (rs ! i)) = JInt 0) \<and>
              (\<not> has_field ''replies_count'' (tweets ! i) \<longrightarrow>
                 metric_replies (metrics (rs ! i)) = JInt 0))"
proof -
  from get_tweet_replies_well_formed [where http = http and s = s and tid = tid and m = max_replies, OF assms] obtain rs where
    res: "get_tweet_replies s tid max_replies http = (Inr rs, s\<lparr>replies := rs\<rparr>)"
    and maps: "map map_reply tweets = map Inr rs" by blast
  have len: "length rs = length tweets" by (rule map_eq_nth(1) [OF maps])
  have "py_getitem (tweets ! i) ''id'' = Inr (reply_id (rs ! i)) \<and>
        py_getitem (tweets ! i) ''text'' = Inr (reply_text (rs ! i)) \<and>
        (\<not> has_field ''likes_count'' (tweets ! i) \<longrightarrow> likes (metrics (rs ! i)) = JInt 0) \<and>
        (\<not> has_field ''retweets_count'' (tweets ! i) \<longrightarrow>
           retweets (metrics (rs ! i)) = JInt 0) \<and>
        (\<not> has_field ''replies_count'' (tweets ! i) \<longrightarrow>
           metric_replies (metrics (rs ! i)) = JInt 0)"
    if "i < length tweets" for i
  proof -
    have m: "map_reply (tweets ! i) = Inr (rs ! i)"
      by (rule map_eq_nth(2) [OF maps that])
    show ?thesis
      using map_reply_fields [OF m] by (auto dest: py_get_absent)
  qed
  with res len show ?thesis by auto
qed

theorem well_formed_tweets_mapped_witness:
  "\<exists>rs. fst (get_tweet_replies (init_service (Some ''u'') (Some ''k'')) ''123'' 100
              (canned ''body'' (Inr (JObj [(''tweets'',
                 JArr [plain_reply ''7'' ''hello'', plain_reply ''8'' ''bye''])])))) = Inr rs \<and>
        length rs = 2 \<and>
        reply_id (rs ! 0) = JStr ''7'' \<and> reply_text (rs ! 1) = JStr ''bye'' \<and>
        likes (metrics (rs ! 0)) = JInt 0 \<and> retweets (metrics (rs ! 1)) = JInt 0 \<and>
        metric_replies (metrics (rs ! 1)) = JInt 0"
proof -
  let ?tweets = "[plain_reply ''7'' ''hello'', plain_reply ''8'' ''bye'']"
  let ?body = "[(''tweets'', JArr ?tweets)]"
  let ?resp = "\<lparr> status_code = 200, text_body = ''body'', json_result = Inr (JObj ?body) \<rparr>"
  let ?s = "init_service (Some ''u'') (Some ''k'')"
  have h1: "canned ''body'' (Inr (JObj ?body)) (build_request ?s ''123'') = Inr ?resp"
    by (simp add: canned_def)
  have h2: "json_result ?resp = Inr (JObj ?body)" by simp
  have h3: "map_of ?body ''tweets'' = Some (JArr ?tweets)" by simp
  have h4: "list_all well_formed ?tweets" by (simp add: well_formed_def plain_reply_def)
  from well_formed_tweets_mapped
      [where http = "canned ''body'' (Inr (JObj ?body))" and s = "?s" and tid = "''123''"
         and max_replies = 100, OF h1 h2 h3 h4] obtain rs where
    rs: "fst (get_tweet_replies ?s ''123'' 100 (canned ''body'' (Inr (JObj ?body)))) = Inr rs"
        "length rs = length ?tweets"
        "\<forall>i<length ?tweets.
           py_getitem (?tweets ! i) ''id'' = Inr (reply_id (rs ! i)) \<and>
           py_getitem (?tweets ! i) ''text'' = Inr (reply_text (rs ! i)) \<and>
           (\<not> has_field ''likes_count'' (?tweets ! i) \<longrightarrow> likes (metrics (rs ! i)) = JInt 0) \<and>
           (\<not> has_field ''retweets_count'' (?tweets ! i) \<longrightarrow>
              retweets (metrics (rs ! i)) = JInt 0) \<and>
           (\<not> has_field ''replies_count'' (?tweets ! i) \<longrightarrow>
              metric_replies (metrics (rs ! i)) = JInt 0)"
    by blast
  from rs(3) [rule_format, of 0] have a0: "reply_id (rs ! 0) = JStr ''7'' \<and> likes (metrics (rs ! 0)) = JInt 0"
    by (simp add: plain_reply_def)
  from rs(3) [rule_format, of 1] have a1: "reply_text (rs ! 1) = JStr ''bye'' \<and> retweets (metrics (rs ! 1)) = JInt 0 \<and>
      metric_replies (metrics (rs ! 1)) = JInt 0"
    by (simp add: plain_reply_def)
  from rs(1,2) a0 a1 show ?thesis by simp
qed

text \<open>The claim of C1 as the specification words it asks of an entry the fields
  \<^verbatim>\<open>id\<close> and \<^verbatim>\<open>text\<close> and nothing more. An entry that has both, and whose
  \<^verbatim>\<open>author\<close> is \<^verbatim>\<open>null\<close>, makes line 52 call \<^verbatim>\<open>get\<close> on \<^verbatim>\<open>None\<close>: an
  \<^verbatim>\<open>AttributeError\<close>, which the handler does not catch, so that no record is returned
  for a list of one such entry.\<close>

theorem null_author_raises:
  "has_field ''id'' (JObj [(''id'', JStr ''7''), (''text'', JStr ''hello''), (''author'', JNull)]) \<and>
   has_field ''text'' (JObj [(''id'', JStr ''7''), (''text'', JStr ''hello''), (''author'', JNull)]) \<and>
   fst (get_tweet_replies (init_service (Some ''u'') (Some ''k'')) ''123'' 100
          (canned ''body'' (Inr (JObj [(''tweets'',
             JArr [JObj [(''id'', JStr ''7''), (''text'', JStr ''hello''), (''author'', JNull)]])])))) =
     Inl AttributeError"
  by (simp add: get_tweet_replies_def on_exception_def canned_def Let_def map_reply_def
        py_bind_def)

text \<open>
  C7. When the parsed body holds under \<^verbatim>\<open>tweets\<close> a list of well-formed objects, the
  list that \<^verbatim>\<open>get_tweet_replies\<close> returns is as long as that list and its record at
  index i is what lines 49 to 60 make of the element at index i: upstream order, nothing
  sorted, inserted or left out.
\<close>

theorem upstream_order_preserved:
  assumes "http (build_request s tid) = Inr resp"
    and "json_result resp = Inr (JObj body)"
    and "map_of body ''tweets'' = Some (JArr tweets)"
    and "list_all well_formed tweets"
  shows "\<exists>rs. fst (get_tweet_replies s tid max_replies http) = Inr rs \<and>
           length rs = length tweets \<and>
           (\<forall>i<length tweets. map_reply (tweets ! i) = Inr (rs ! i))"
proof -
  from get_tweet_replies_well_formed [where http = http and s = s and tid = tid and m = max_replies, OF assms] obtain rs where
    res: "get_tweet_replies s tid max_replies http = (Inr rs, s\<lparr>replies := rs\<rparr>)"
    and maps: "map map_reply tweets = map Inr rs" by blast
  from map_eq_nth [OF maps] res show ?thesis by auto
qed

theorem upstream_order_preserved_witness:
  "\<exists>rs. fst (get_tweet_replies (init_service (Some ''u'') (Some ''k'')) ''123'' 100
              (canned ''body'' (Inr (JObj [(''tweets'',
                 JArr [plain_reply ''9'' ''z'', plain_reply ''1'' ''a''])])))) = Inr rs \<and>
        length rs = 2 \<and>
        reply_id (rs ! 0) = JStr ''9'' \<and> reply_id (rs ! 1) = JStr ''1''"
proof -
  let ?tweets = "[plain_reply ''9'' ''z'', plain_reply ''1'' ''a'']"
  let ?body = "[(''tweets'', JArr ?tweets)]"
  let ?resp = "\<lparr> status_code = 200, text_body = ''body'', json_result = Inr (JObj ?body) \<rparr>"
  let ?s = "init_service (Some ''u'') (Some ''k'')"
  have h1: "canned ''body'' (Inr (JObj ?body)) (build_request ?s ''123'') = Inr ?resp"
    by (simp add: canned_def)
  have h2: "json_result ?resp = Inr (JObj ?body)" by simp
  have h3: "map_of ?body ''tweets'' = Some (JArr ?tweets)" by simp
  have h4: "list_all well_formed ?tweets" by (simp add: well_formed_def plain_reply_def)
  from upstream_order_preserved
      [where http = "canned ''body'' (Inr (JObj ?body))" and s = "?s" and tid = "''123''"
         and max_replies = 100, OF h1 h2 h3 h4] obtain rs where
    rs: "fst (get_tweet_replies ?s ''123'' 100 (canned ''body'' (Inr (JObj ?body)))) = Inr rs"
        "length rs = length ?tweets"
        "\<forall>i<length ?tweets. map_reply (?tweets ! i) = Inr (rs ! i)"
    by blast
  from rs(3) [rule_format, of 0] have "map_reply (plain_reply ''9'' ''z'') = Inr (rs ! 0)" by simp
  then have a0: "reply_id (rs ! 0) = JStr ''9''"
    using map_reply_fields(1) [of "plain_reply ''9'' ''z''" "rs ! 0"] by (simp add: plain_reply_def)
  from rs(3) [rule_format, of 1] have "map_reply (plain_reply ''1'' ''a'') = Inr (rs ! 1)" by simp
  then have a1: "reply_id (rs ! 1) = JStr ''1''"
    using map_reply_fields(1) [of "plain_reply ''1'' ''a''" "rs ! 1"] by (simp add: plain_reply_def)
  from rs(1,2) a0 a1 show ?thesis by simp
qed

text \<open>
  C4. When the list under \<^verbatim>\<open>tweets\<close> holds an entry without \<^verbatim>\<open>id\<close> or without
  \<^verbatim>\<open>text\<close>, \<^verbatim>\<open>get_tweet_replies\<close> raises: it returns no list at all, neither one that
  skips the entry nor a partial one.
\<close>

theorem missing_required_field_propagates:
  assumes "http (build_request s tid) = Inr resp"
    and "json_result resp = Inr (JObj body)"
    and "map_of body ''tweets'' = Some (JArr tweets)"
    and "x \<in> set tweets"
    and "\<not> has_field ''id'' x \<or> \<not> has_field ''text'' x"
  shows "\<exists>e. fst (get_tweet_replies s tid max_replies http) = Inl e"
proof -
  from assms(5) have "\<not> well_formed x" by (auto simp: well_formed_def)
  from append_replies_some_failure [OF assms(4) this, of "[]"] obtain e buf where
    "append_replies [] tweets = (Some e, buf)" "\<not> is_RequestException e" by blast
  then show ?thesis
    using get_tweet_replies_tweets_array [where http = http and s = s and tid = tid and m = max_replies, OF assms(1-3)]
    by (simp add: on_exception_def)
qed

theorem missing_required_field_propagates_witness:
  "\<exists>e. fst (get_tweet_replies (init_service (Some ''u'') (Some ''k'')) ''123'' 100
             (canned ''body'' (Inr (JObj [(''tweets'',
                JArr [plain_reply ''7'' ''hello'', JObj [(''text'', JStr ''no id'')]])])))) = Inl e"
proof -
  let ?tweets = "[plain_reply ''7'' ''hello'', JObj [(''text'', JStr ''no id'')]]"
  let ?body = "[(''tweets'', JArr ?tweets)]"
  let ?resp = "\<lparr> status_code = 200, text_body = ''body'', json_result = Inr (JObj ?body) \<rparr>"
  let ?s = "init_service (Some ''u'') (Some ''k'')"
  have h1: "canned ''body'' (Inr (JObj ?body)) (build_request ?s ''123'') = Inr ?resp"
    by (simp add: canned_def)
  have h2: "json_result ?resp = Inr (JObj ?body)" by simp
  have h3: "map_of ?body ''tweets'' = Some (JArr ?tweets)" by simp
  have h4: "JObj [(''text'', JStr ''no id'')] \<in> set ?tweets" by simp
  have h5: "\<not> has_field ''id'' (JObj [(''text'', JStr ''no id'')]) \<or>
            \<not> has_field ''text'' (JObj [(''text'', JStr ''no id'')])" by simp
  from missing_required_field_propagates
      [where http = "canned ''body'' (Inr (JObj ?body))" and s = "?s" and tid = "''123''"
         and max_replies = 100, OF h1 h2 h3 h4 h5] show ?thesis .
qed

text \<open>
  C5, as the code has it. When the body parses to an object that has no key
  \<^verbatim>\<open>tweets\<close>, or whose \<^verbatim>\<open>tweets\<close> is not a list, \<^verbatim>\<open>get_tweet_replies\<close> returns the
  empty list.
\<close>

theorem object_without_tweets_list:
  assumes "http (build_request s tid) = Inr resp"
    and "json_result resp = Inr (JObj body)"
    and "map_of body ''tweets'' = None \<or>
         (\<exists>v. map_of body ''tweets'' = Some v \<and> \<not> isinstance_list v)"
  shows "fst (get_tweet_replies s tid max_replies http) = Inr []"
  using assms
  by (auto simp: get_tweet_replies_def build_request_def Let_def)

theorem object_without_tweets_list_witness:
  "fst (get_tweet_replies (init_service (Some ''u'') (Some ''k'')) ''123'' 100
          (canned ''body'' (Inr (JObj [(''tweets'', JStr ''none'')])))) = Inr []"
proof -
  let ?body = "[(''tweets'', JStr ''none'')]"
  let ?resp = "\<lparr> status_code = 200, text_body = ''body'', json_result = Inr (JObj ?body) \<rparr>"
  let ?s = "init_service (Some ''u'') (Some ''k'')"
  have h1: "canned ''body'' (Inr (JObj ?body)) (build_request ?s ''123'') = Inr ?resp"
    by (simp add: canned_def)
  have h2: "json_result ?resp = Inr (JObj ?body)" by simp
  have h3: "map_of ?body ''tweets'' = None \<or>
            (\<exists>v. map_of ?body ''tweets'' = Some v \<and> \<not> isinstance_list v)" by simp
  from object_without_tweets_list
      [where http = "canned ''body'' (Inr (JObj ?body))" and s = "?s" and tid = "''123''"
         and max_replies = 100, OF h1 h2 h3] show ?thesis .
qed

text \<open>The claim of C5 as the specification words it covers every body that parses. The
  body \<^verbatim>\<open>null\<close> parses and has no key \<^verbatim>\<open>tweets\<close>; the test of line 47 raises a
  \<^verbatim>\<open>TypeError\<close> on it, which the handler does not catch.\<close>

theorem null_body_raises:
  "fst (get_tweet_replies (init_service (Some ''u'') (Some ''k'')) ''123'' 100
          (canned ''null'' (Inr JNull))) = Inl TypeError"
  by (simp add: get_tweet_replies_def on_exception_def canned_def Let_def)

section \<open>The metadata and the unused bound\<close>

text \<open>
  C6. Whatever the tweet id and the response, the result that
  \<^verbatim>\<open>get_replies_with_metadata\<close> returns has \<^verbatim>\<open>total_replies_fetched\<close> equal to the
  length of its \<^verbatim>\<open>replies\<close>, and these are the list the underlying call of
  \<^verbatim>\<open>get_tweet_replies\<close> returned.
\<close>

theorem total_is_length_of_replies:
  assumes "get_replies_with_metadata s tid max_replies http now = (Inr r, s')"
  shows "total_replies_fetched r = int (length (fetched_replies r)) \<and>
         get_tweet_replies s tid max_replies http = (Inr (fetched_replies r), s')"
  using assms
  by (auto simp: get_replies_with_metadata_def split: prod.splits sum.splits)

theorem total_is_length_of_replies_witness:
  "\<exists>r s'. get_replies_with_metadata (init_service (Some ''u'') (Some ''k'')) ''123'' 100
             (canned ''body'' (Inr (JObj [(''tweets'',
                JArr [plain_reply ''1'' ''a'', plain_reply ''2'' ''b'', plain_reply ''3'' ''c''])])))
             \<lparr> dt_year = 2025, dt_month = 3, dt_day = 21, dt_hour = 9, dt_minute = 5,
               dt_second = 7, dt_microsecond = 0 \<rparr> = (Inr r, s') \<and>
          total_replies_fetched r = 3 \<and> int (length (fetched_replies r)) = 3"
proof -
  let ?http = "canned ''body'' (Inr (JObj [(''tweets'',
                JArr [plain_reply ''1'' ''a'', plain_reply ''2'' ''b'', plain_reply ''3'' ''c''])]))"
  let ?now = "\<lparr> dt_year = 2025, dt_month = 3, dt_day = 21, dt_hour = 9, dt_minute = 5,
               dt_second = 7, dt_microsecond = 0 \<rparr>"
  let ?s = "init_service (Some ''u'') (Some ''k'')"
  obtain r s' where run: "get_replies_with_metadata ?s ''123'' 100 ?http ?now = (Inr r, s')"
    and tot: "total_replies_fetched r = 3"
    by (simp add: get_replies_with_metadata_def get_tweet_replies_def canned_def Let_def
          map_reply_def py_bind_def plain_reply_def)
  from total_is_length_of_replies [OF run] tot run show ?thesis by auto
qed

text \<open>
  C8. The result of \<^verbatim>\<open>get_tweet_replies\<close> does not depend on \<^verbatim>\<open>max_replies\<close>: two
  calls that differ in it alone have the same outcome; and the bound does not limit the
  number of records, for every bound some response yields more.
\<close>

theorem max_replies_is_ignored:
  "get_tweet_replies s tid m1 http = get_tweet_replies s tid m2 http \<and>
   (\<exists>http' rs. fst (get_tweet_replies s tid m http') = Inr rs \<and> m < int (length rs))"
proof
  show "get_tweet_replies s tid m1 http = get_tweet_replies s tid m2 http"
    by (simp add: get_tweet_replies_def)
next
  let ?tweets = "replicate (Suc (nat m)) (plain_reply ''1'' ''t'')"
  let ?body = "[(''tweets'', JArr ?tweets)]"
  let ?resp = "\<lparr> status_code = 200, text_body = ''body'', json_result = Inr (JObj ?body) \<rparr>"
  have h1: "canned ''body'' (Inr (JObj ?body)) (build_request s tid) = Inr ?resp"
    by (simp add: canned_def)
  have h2: "json_result ?resp = Inr (JObj ?body)" by simp
  have h3: "map_of ?body ''tweets'' = Some (JArr ?tweets)" by simp
  have h4: "list_all well_formed ?tweets"
    by (simp add: list_all_iff well_formed_def plain_reply_def)
  from get_tweet_replies_well_formed
      [where http = "canned ''body'' (Inr (JObj ?body))" and s = s and tid = tid and m = m,
       OF h1 h2 h3 h4] obtain rs where
    res: "get_tweet_replies s tid m (canned ''body'' (Inr (JObj ?body))) =
            (Inr rs, s\<lparr>replies := rs\<rparr>)"
    and maps: "map map_reply ?tweets = map Inr rs" by blast
  have "length rs = Suc (nat m)" using map_eq_nth(1) [OF maps] by simp
  then have "m < int (length rs)" by simp
  with res show "\<exists>http' rs. fst (get_tweet_replies s tid m http') = Inr rs \<and> m < int (length rs)"
    by (metis fst_conv)
qed

section \<open>The buffer after a failure\<close>

text \<open>
  C10, as the code has it. When the entry at index k lacks \<^verbatim>\<open>id\<close> or \<^verbatim>\<open>text\<close> and the
  entries before it are well-formed, so that k is where the loop first fails,
  \<^verbatim>\<open>get_tweet_replies\<close> raises and leaves in the buffer exactly the records of the
  entries 0 to k-1, whatever the buffer held before. The instance then differs from what
  it was at the start of the call unless its buffer already held exactly those records.
  The next call starts from an empty buffer: its outcome is that of a call on the
  instance as it was.
\<close>

theorem abort_leaves_partial_buffer:
  assumes "http (build_request s tid) = Inr resp"
    and "json_result resp = Inr (JObj body)"
    and "map_of body ''tweets'' = Some (JArr tweets)"
    and "k < length tweets"
    and "\<forall>i<k. well_formed (tweets ! i)"
    and "\<not> has_field ''id'' (tweets ! k) \<or> \<not> has_field ''text'' (tweets ! k)"
  shows "\<exists>e rs. get_tweet_replies s tid max_replies http = (Inl e, s\<lparr>replies := rs\<rparr>) \<and>
           length rs = k \<and>
           (\<forall>i<k. map_reply (tweets ! i) = Inr (rs ! i)) \<and>
           (s\<lparr>replies := rs\<rparr> = s \<longleftrightarrow> replies s = rs) \<and>
           (\<forall>tid' m' http'. get_tweet_replies (s\<lparr>replies := rs\<rparr>) tid' m' http' =
                            get_tweet_replies s tid' m' http')"
proof -
  let ?pre = "take k tweets" and ?post = "drop (Suc k) tweets"
  have split: "tweets = ?pre @ tweets ! k # ?post"
    using assms(4) by (rule id_take_nth_drop)
  have pre: "list_all well_formed ?pre"
    using assms(4,5) by (simp add: list_all_length)
  from assms(6) have "\<not> well_formed (tweets ! k)" by (auto simp: well_formed_def)
  then obtain e where e: "map_reply (tweets ! k) = Inl e"
    using map_reply_total_iff [of "tweets ! k"] by (cases "map_reply (tweets ! k)") auto
  from append_replies_first_failure [OF pre e, of "[]" ?post] split obtain rs where
    loop: "append_replies [] tweets = (Some e, rs)"
    and maps: "map map_reply ?pre = map Inr rs" by auto
  have res: "get_tweet_replies s tid max_replies http = (Inl e, s\<lparr>replies := rs\<rparr>)"
    using get_tweet_replies_tweets_array [where http = http and s = s and tid = tid and m = max_replies, OF assms(1-3)] loop map_reply_error [OF e]
    by (simp add: on_exception_def)
  have len: "length rs = k"
    using map_eq_nth(1) [OF maps] assms(4) by simp
  have nth: "map_reply (tweets ! i) = Inr (rs ! i)" if "i < k" for i
    using map_eq_nth(2) [OF maps, of i] that assms(4) by simp
  from res len nth show ?thesis
    by (auto simp: service_buffer_eq get_tweet_replies_buffer)
qed

theorem abort_leaves_partial_buffer_witness:
  "\<exists>e rs. get_tweet_replies (init_service (Some ''u'') (Some ''k'')) ''123'' 100
             (canned ''body'' (Inr (JObj [(''tweets'',
                JArr [plain_reply ''7'' ''hello'', JObj [(''id'', JStr ''8'')]])]))) =
             (Inl e, (init_service (Some ''u'') (Some ''k''))\<lparr>replies := rs\<rparr>) \<and>
           length rs = 1 \<and> map_reply (plain_reply ''7'' ''hello'') = Inr (rs ! 0) \<and>
           (init_service (Some ''u'') (Some ''k''))\<lparr>replies := rs\<rparr> \<noteq>
             init_service (Some ''u'') (Some ''k'')"
proof -
  let ?tweets = "[plain_reply ''7'' ''hello'', JObj [(''id'', JStr ''8'')]]"
  let ?body = "[(''tweets'', JArr ?tweets)]"
  let ?resp = "\<lparr> status_code = 200, text_body = ''body'', json_result = Inr (JObj ?body) \<rparr>"
  let ?s = "init_service (Some ''u'') (Some ''k'')"
  have h1: "canned ''body'' (Inr (JObj ?body)) (build_request ?s ''123'') = Inr ?resp"
    by (simp add: canned_def)
  have h2: "json_result ?resp = Inr (JObj ?body)" by simp
  have h3: "map_of ?body ''tweets'' = Some (JArr ?tweets)" by simp
  have h4: "1 < length ?tweets" by simp
  have h5: "\<forall>i<1. well_formed (?tweets ! i)" by (simp add: well_formed_def plain_reply_def)
  have h6: "\<not> has_field ''id'' (?tweets ! 1) \<or> \<not> has_field ''text'' (?tweets ! 1)" by simp
  from abort_leaves_partial_buffer
      [where http = "canned ''body'' (Inr (JObj ?body))" and s = "?s" and tid = "''123''"
         and max_replies = 100, OF h1 h2 h3 h4 h5 h6] obtain e rs where
    r: "get_tweet_replies ?s ''123'' 100 (canned ''body'' (Inr (JObj ?body))) =
          (Inl e, ?s\<lparr>replies := rs\<rparr>)"
       "length rs = 1"
       "\<forall>i<1. map_reply (?tweets ! i) = Inr (rs ! i)"
       "(?s\<lparr>replies := rs\<rparr> = ?s) \<longleftrightarrow> replies ?s = rs"
    by blast
  from r(2) have "replies ?s \<noteq> rs" by (auto simp: init_service_def)
  with r show ?thesis by auto
qed

text \<open>The claim of C10 as worded says that the instance after the error differs from the
  instance at the start of the call. On a new instance whose first entry lacks \<^verbatim>\<open>id\<close>
  nothing was appended and the instance is what it was.\<close>

theorem first_entry_malformed_state_unchanged:
  "get_tweet_replies (init_service (Some ''u'') (Some ''k'')) ''123'' 100
     (canned ''body'' (Inr (JObj [(''tweets'', JArr [JObj [(''text'', JStr ''no id'')]])]))) =
   (Inl (KeyError ''id''), init_service (Some ''u'') (Some ''k''))"
  by (simp add: get_tweet_replies_def on_exception_def canned_def Let_def map_reply_def
        py_bind_def init_service_def)

section \<open>Decoding what the encoder wrote\<close>


subsection \<open>Integers\<close>

lemma of_char_digit: "(of_char (digit d) :: nat) = 48 + d mod 10"
proof -
  have "n < 10 \<Longrightarrow> (of_char (''0123456789'' ! n) :: nat) = 48 + n" for n
    by (auto simp: less_Suc_eq eval_nat_numeral)
  then show ?thesis by (simp add: digit_def)
qed




lemma digit_not_minus: "digit d \<noteq> CHR ''-''"
proof
  assume "digit d = CHR ''-''"
  then have "(of_char (digit d) :: nat) = of_char (CHR ''-'')" by simp
  then show False by (simp add: of_char_digit)
qed









subsection \<open>Strings and white space\<close>










subsection \<open>First characters, leading white space, dictionaries\<close>















subsection \<open>One step of the decoder on the encoder's text\<close>














subsection \<open>The round trip\<close>





section \<open>The saved file\<close>













end
